theory Spec2Isabelle
  imports Complex_Main
begin

section \<open>The live-view shader types shared by host code and vertex shader\<close>

text \<open>
  The header \<^verbatim>\<open>LiveViewShaderTypes.h\<close> declares two enumerations of binding indices
  and the structure of one vertex. Each enumeration becomes a datatype with one
  constructor per enumerator, together with the function giving the integer the
  header assigns to it (a C enumerator has type \<^verbatim>\<open>int\<close>).
\<close>

subsection \<open>Buffer and texture indices\<close>

datatype LiveViewVertexInputIndex =
    LiveViewVertexInputIndexVertices
  | LiveViewVertexInputIndexViewportSize

fun LiveViewVertexInputIndex_value :: "LiveViewVertexInputIndex \<Rightarrow> int" where
  "LiveViewVertexInputIndex_value LiveViewVertexInputIndexVertices = 0"
| "LiveViewVertexInputIndex_value LiveViewVertexInputIndexViewportSize = 1"

datatype LiveViewTextureIndex =
    LiveViewTextureIndexBaseColor

fun LiveViewTextureIndex_value :: "LiveViewTextureIndex \<Rightarrow> int" where
  "LiveViewTextureIndex_value LiveViewTextureIndexBaseColor = 0"

text \<open>
  A binding slot of the contract is an enumerator of one of the two enumerations;
  the tag records which enumeration (buffer or texture) it belongs to.
\<close>

datatype BindingSlot =
    BufferSlot LiveViewVertexInputIndex
  | TextureSlot LiveViewTextureIndex

fun slotIndex :: "BindingSlot \<Rightarrow> int" where
  "slotIndex (BufferSlot b) = LiveViewVertexInputIndex_value b"
| "slotIndex (TextureSlot t) = LiveViewTextureIndex_value t"

text \<open>
  An enumerator is an integer constant expression. Read as an expression over
  program states (of any type \<open>'st\<close>) it denotes a constant function: evaluating it
  consults nothing of the state.
\<close>

definition enumeratorExpr :: "BindingSlot \<Rightarrow> 'st \<Rightarrow> int" where
  "enumeratorExpr s = (\<lambda>st. slotIndex s)"

subsection \<open>The vertex structure\<close>

text \<open>
  \<^verbatim>\<open>vector_float2\<close> comes from \<^verbatim>\<open>simd/simd.h\<close>: a vector of two floats. Its two
  components are modelled as a pair of real numbers, so the arithmetic below is exact
  arithmetic and says nothing about rounding.
\<close>

type_synonym vector_float2 = "real \<times> real"

record LiveViewVertex =
  position :: vector_float2
  textureCoordinate :: vector_float2

subsection \<open>Layout of the vertex structure\<close>

text \<open>
  The members of the structure in declaration order, with their declared types.
\<close>

datatype member_type = VectorFloat2

definition LiveViewVertex_members :: "(string \<times> member_type) list" where
  "LiveViewVertex_members =
     [(''position'', VectorFloat2), (''textureCoordinate'', VectorFloat2)]"

text \<open>
  Modelled from the spec: the declaration of \<^verbatim>\<open>vector_float2\<close> is in
  \<^verbatim>\<open>simd/simd.h\<close>, which is not among the sources. The spec calls each field
  ``a 2-component floating-point vector'', so its size is twice the size \<open>f\<close> of a
  float; its alignment \<open>a\<close> is left as a parameter. The pair is (size, alignment),
  in bytes.
\<close>

fun simd_type_info :: "nat \<Rightarrow> nat \<Rightarrow> member_type \<Rightarrow> nat \<times> nat" where
  "simd_type_info f a VectorFloat2 = (2 * f, a)"

text \<open>
  The layout rule of C structures: every member is placed at the first offset at or
  after the end of its predecessor that is a multiple of its alignment; the structure is
  aligned as its most strictly aligned member, and its size is the end of the last member
  rounded up to that alignment.
\<close>

definition align_up :: "nat \<Rightarrow> nat \<Rightarrow> nat" where
  "align_up a n = ((n + a - 1) div a) * a"

fun member_offsets ::
  "(member_type \<Rightarrow> nat \<times> nat) \<Rightarrow> nat \<Rightarrow> (string \<times> member_type) list \<Rightarrow> (string \<times> nat) list" where
  "member_offsets info off [] = []"
| "member_offsets info off ((n, t) # ms) =
     (let start = align_up (snd (info t)) off
      in (n, start) # member_offsets info (start + fst (info t)) ms)"

fun members_end ::
  "(member_type \<Rightarrow> nat \<times> nat) \<Rightarrow> nat \<Rightarrow> (string \<times> member_type) list \<Rightarrow> nat" where
  "members_end info off [] = off"
| "members_end info off ((n, t) # ms) =
     members_end info (align_up (snd (info t)) off + fst (info t)) ms"

definition struct_align ::
  "(member_type \<Rightarrow> nat \<times> nat) \<Rightarrow> (string \<times> member_type) list \<Rightarrow> nat" where
  "struct_align info ms = fold max (map (\<lambda>(n, t). snd (info t)) ms) 1"

definition struct_size ::
  "(member_type \<Rightarrow> nat \<times> nat) \<Rightarrow> (string \<times> member_type) list \<Rightarrow> nat" where
  "struct_size info ms = align_up (struct_align info ms) (members_end info 0 ms)"

definition members_bytes ::
  "(member_type \<Rightarrow> nat \<times> nat) \<Rightarrow> (string \<times> member_type) list \<Rightarrow> nat" where
  "members_bytes info ms = sum_list (map (\<lambda>(n, t). fst (info t)) ms)"

subsection \<open>The vertex shader's viewport transform\<close>

text \<open>
  Modelled from the spec: the vertex shader is not among the sources. The spec fixes
  its transform: ``normalized device coordinate = pixel-space position divided by half
  the viewport size, per axis''.
\<close>

definition viewportTransform :: "vector_float2 \<Rightarrow> vector_float2 \<Rightarrow> vector_float2" where
  "viewportTransform viewportSize pixelSpacePosition =
     (fst pixelSpacePosition / (fst viewportSize / 2),
      snd pixelSpacePosition / (snd viewportSize / 2))"

definition vertexNDC :: "vector_float2 \<Rightarrow> LiveViewVertex \<Rightarrow> vector_float2" where
  "vertexNDC viewportSize v = viewportTransform viewportSize (position v)"

text \<open>
  Modelled from the spec: the code that builds the quad is not among the sources. The
  spec describes ``the four corners at (\<open>\<plusminus>\<close>halfWidth, \<open>\<plusminus>\<close>halfHeight) in pixel space'',
  computed from the current viewport.
\<close>

definition quadCorners :: "vector_float2 \<Rightarrow> vector_float2 list" where
  "quadCorners viewportSize =
     (let halfWidth = fst viewportSize / 2; halfHeight = snd viewportSize / 2
      in [(- halfWidth, - halfHeight), (halfWidth, - halfHeight),
          (- halfWidth, halfHeight), (halfWidth, halfHeight)])"

subsection \<open>Argument tables\<close>

text \<open>
  Modelled from the spec: the calls that bind resources are not among the sources. The
  spec says that ``textures and buffers are bound through different APIs'': there is
  one table of bound buffers and another of bound textures, each indexed by integers,
  and each call writes to its own table.
\<close>

record ('b, 't) argumentTables =
  bufferTable :: "int \<rightharpoonup> 'b"
  textureTable :: "int \<rightharpoonup> 't"

definition bindBufferAtIndex ::
  "'b \<Rightarrow> int \<Rightarrow> ('b, 't) argumentTables \<Rightarrow> ('b, 't) argumentTables" where
  "bindBufferAtIndex b i e = e\<lparr>bufferTable := (bufferTable e)(i \<mapsto> b)\<rparr>"

definition bindTextureAtIndex ::
  "'t \<Rightarrow> int \<Rightarrow> ('b, 't) argumentTables \<Rightarrow> ('b, 't) argumentTables" where
  "bindTextureAtIndex t i e = e\<lparr>textureTable := (textureTable e)(i \<mapsto> t)\<rparr>"

section \<open>Properties\<close>

subsection \<open>Helper facts\<close>

lemma div_after_multiple:
  assumes "0 < (a::nat)"
  shows "(a * k + (a - 1)) div a = k"
proof -
  from assms have "a \<noteq> 0" by simp
  then have "(a * k + (a - 1)) div a = k + (a - 1) div a"
    by (rule div_mult_self4)
  moreover have "(a - 1) div a = 0"
    using assms by simp
  ultimately show ?thesis by simp
qed

lemma align_up_multiple:
  assumes "0 < a" and "a dvd n"
  shows "align_up a n = n"
proof -
  from assms(2) obtain k where n: "n = a * k" by (auto simp: dvd_def)
  have "a * k + a - 1 = a * k + (a - 1)"
    using assms(1) by simp
  then have "(a * k + a - 1) div a = k"
    using div_after_multiple [OF assms(1), of k] by simp
  then show ?thesis
    by (simp add: align_up_def n)
qed

lemma align_up_zero: "0 < a \<Longrightarrow> align_up a 0 = 0"
  by (simp add: align_up_def)

subsection \<open>The binding indices\<close>

text \<open>
  C3. The two buffer indices are distinct: the index of the vertex buffer is not the
  index of the viewport-size buffer.
\<close>

theorem buffer_indices_distinct:
  "LiveViewVertexInputIndex_value LiveViewVertexInputIndexVertices
     \<noteq> LiveViewVertexInputIndex_value LiveViewVertexInputIndexViewportSize"
  by simp

text \<open>
  C10. The header assigns 0 to the vertex buffer index, 1 to the viewport-size buffer
  index and 0 to the base-colour texture index.
\<close>

theorem binding_index_values:
  "LiveViewVertexInputIndex_value LiveViewVertexInputIndexVertices = 0
   \<and> LiveViewVertexInputIndex_value LiveViewVertexInputIndexViewportSize = 1
   \<and> LiveViewTextureIndex_value LiveViewTextureIndexBaseColor = 0"
  by simp

text \<open>
  C7. The buffer index enumeration has exactly the two enumerators for the vertices and
  the viewport size, the texture index enumeration has exactly the one enumerator for the
  base colour, and these three are all the binding slots there are.
\<close>

theorem slot_enumerations_exhaustive:
  "(UNIV :: LiveViewVertexInputIndex set)
      = {LiveViewVertexInputIndexVertices, LiveViewVertexInputIndexViewportSize}
   \<and> card (UNIV :: LiveViewVertexInputIndex set) = 2
   \<and> (UNIV :: LiveViewTextureIndex set) = {LiveViewTextureIndexBaseColor}
   \<and> card (UNIV :: LiveViewTextureIndex set) = 1
   \<and> (UNIV :: BindingSlot set)
      = {BufferSlot LiveViewVertexInputIndexVertices,
         BufferSlot LiveViewVertexInputIndexViewportSize,
         TextureSlot LiveViewTextureIndexBaseColor}"
proof -
  have b: "(UNIV :: LiveViewVertexInputIndex set)
      = {LiveViewVertexInputIndexVertices, LiveViewVertexInputIndexViewportSize}"
    using LiveViewVertexInputIndex.exhaust by auto
  have t: "(UNIV :: LiveViewTextureIndex set) = {LiveViewTextureIndexBaseColor}"
    using LiveViewTextureIndex.exhaust by auto
  have s: "(UNIV :: BindingSlot set) = BufferSlot ` UNIV \<union> TextureSlot ` UNIV"
  proof
    show "(UNIV :: BindingSlot set) \<subseteq> BufferSlot ` UNIV \<union> TextureSlot ` UNIV"
    proof
      fix x :: BindingSlot
      show "x \<in> BufferSlot ` UNIV \<union> TextureSlot ` UNIV" by (cases x) auto
    qed
  qed simp
  have cb: "card (UNIV :: LiveViewVertexInputIndex set) = 2" unfolding b by simp
  have ct: "card (UNIV :: LiveViewTextureIndex set) = 1" unfolding t by simp
  have s': "(UNIV :: BindingSlot set)
      = {BufferSlot LiveViewVertexInputIndexVertices,
         BufferSlot LiveViewVertexInputIndexViewportSize,
         TextureSlot LiveViewTextureIndexBaseColor}"
    unfolding s b t by auto
  from b t cb ct s' show ?thesis by blast
qed

text \<open>
  C8. Every binding slot constant is a small non-negative integer (between 0 and 1), and
  its value is stable: evaluated in any two program states \<open>st\<close> and \<open>st'\<close> it is the
  same integer.
\<close>

theorem slot_index_small_and_stable:
  "0 \<le> enumeratorExpr s st \<and> enumeratorExpr s st \<le> 1
   \<and> enumeratorExpr s st = enumeratorExpr s st'"
proof (cases s)
  case (BufferSlot b)
  then show ?thesis by (cases b) (simp_all add: enumeratorExpr_def)
next
  case (TextureSlot t)
  then show ?thesis by (cases t) (simp_all add: enumeratorExpr_def)
qed

text \<open>
  C5. Texture indices and buffer indices are separate numbering spaces. The base-colour
  texture index and the vertex buffer index are the same number, yet binding a texture at
  the one leaves the buffer bound at the other in place, and the other way round; as
  binding slots the two are different.
\<close>

theorem texture_and_buffer_tables_independent:
  "LiveViewTextureIndex_value LiveViewTextureIndexBaseColor
     = LiveViewVertexInputIndex_value LiveViewVertexInputIndexVertices
   \<and> bufferTable
        (bindTextureAtIndex t (LiveViewTextureIndex_value LiveViewTextureIndexBaseColor)
          (bindBufferAtIndex b (LiveViewVertexInputIndex_value LiveViewVertexInputIndexVertices) e))
        (LiveViewVertexInputIndex_value LiveViewVertexInputIndexVertices) = Some b
   \<and> textureTable
        (bindBufferAtIndex b (LiveViewVertexInputIndex_value LiveViewVertexInputIndexVertices)
          (bindTextureAtIndex t (LiveViewTextureIndex_value LiveViewTextureIndexBaseColor) e))
        (LiveViewTextureIndex_value LiveViewTextureIndexBaseColor) = Some t
   \<and> BufferSlot LiveViewVertexInputIndexVertices \<noteq> TextureSlot LiveViewTextureIndexBaseColor"
  by (simp add: bindTextureAtIndex_def bindBufferAtIndex_def)

subsection \<open>The layout of a vertex\<close>

text \<open>
  C1. The vertex structure has exactly the two members \<open>position\<close> and
  \<open>textureCoordinate\<close>, in this order, each a vector of two floats. Whatever the size
  \<open>f\<close> of a float and the alignment \<open>a\<close> of such a vector (an alignment divides the
  size of its type), \<open>position\<close> lies at offset 0 and \<open>textureCoordinate\<close> directly
  after it at offset \<open>2 * f\<close>, and the size of the structure, which is the stride of an
  array of vertices, is \<open>4 * f\<close>: four floats, the sum of the members' sizes, with no
  padding.
\<close>

theorem vertex_layout:
  assumes "0 < a" and "a dvd 2 * f"
  shows "map fst LiveViewVertex_members = [''position'', ''textureCoordinate'']
    \<and> map snd LiveViewVertex_members = [VectorFloat2, VectorFloat2]
    \<and> member_offsets (simd_type_info f a) 0 LiveViewVertex_members
        = [(''position'', 0), (''textureCoordinate'', 2 * f)]
    \<and> struct_size (simd_type_info f a) LiveViewVertex_members = 4 * f
    \<and> struct_size (simd_type_info f a) LiveViewVertex_members
        = members_bytes (simd_type_info f a) LiveViewVertex_members"
proof -
  have z: "align_up a 0 = 0"
    using assms(1) by (rule align_up_zero)
  have m: "align_up a (2 * f) = 2 * f"
    using assms by (rule align_up_multiple)
  have "4 * f = 2 * f + 2 * f"
    by simp
  then have "a dvd 4 * f"
    using assms(2) by (simp only: dvd_add)
  then have e: "align_up a (4 * f) = 4 * f"
    using assms(1) by (simp add: align_up_multiple)
  have sa: "struct_align (simd_type_info f a) LiveViewVertex_members = a"
    using assms(1) by (simp add: struct_align_def LiveViewVertex_members_def)
  have me: "members_end (simd_type_info f a) 0 LiveViewVertex_members = 4 * f"
    by (simp add: LiveViewVertex_members_def z m)
  have off: "member_offsets (simd_type_info f a) 0 LiveViewVertex_members
        = [(''position'', 0), (''textureCoordinate'', 2 * f)]"
    by (simp add: LiveViewVertex_members_def z m)
  have sz: "struct_size (simd_type_info f a) LiveViewVertex_members = 4 * f"
    by (simp add: struct_size_def sa me e)
  have mb: "members_bytes (simd_type_info f a) LiveViewVertex_members = 4 * f"
    by (simp add: members_bytes_def LiveViewVertex_members_def)
  show ?thesis
    using off sz mb by (simp add: LiveViewVertex_members_def)
qed

text \<open>
  With floats of 4 bytes and vectors aligned to 8 bytes: offsets 0 and 8, size 16.
\<close>

theorem vertex_layout_witness:
  "(0::nat) < 8 \<and> (8::nat) dvd 2 * 4
   \<and> member_offsets (simd_type_info 4 8) 0 LiveViewVertex_members
        = [(''position'', 0), (''textureCoordinate'', 8)]
   \<and> struct_size (simd_type_info 4 8) LiveViewVertex_members = 16"
  using vertex_layout [of 8 4] by simp

subsection \<open>The viewport transform\<close>

text \<open>
  C2. For every viewport of width \<open>W > 0\<close> and height \<open>H > 0\<close>, a vertex at pixel
  position \<open>(W/2, H/2)\<close> has the normalized device coordinate \<open>(1, 1)\<close>, and a vertex at
  \<open>(-W/2, -H/2)\<close> has \<open>(-1, -1)\<close>.
\<close>

theorem viewport_corner_ndc:
  "0 < W \<Longrightarrow> 0 < H \<Longrightarrow>
     vertexNDC (W, H) \<lparr>position = (W / 2, H / 2), textureCoordinate = tc\<rparr> = (1, 1)
     \<and> vertexNDC (W, H) \<lparr>position = (- (W / 2), - (H / 2)), textureCoordinate = tc'\<rparr>
         = (- 1, - 1)"
  by (simp add: vertexNDC_def viewportTransform_def)

theorem viewport_corner_ndc_witness:
  "(0::real) < 800 \<and> (0::real) < 600
   \<and> vertexNDC (800, 600) \<lparr>position = (400, 300), textureCoordinate = (1, 1)\<rparr> = (1, 1)
   \<and> vertexNDC (800, 600) \<lparr>position = (- 400, - 300), textureCoordinate = (0, 0)\<rparr>
       = (- 1, - 1)"
  using viewport_corner_ndc [of 800 600 "(1, 1)" "(0, 0)"] by simp

text \<open>
  C6. In a viewport of 800 by 600, a quad whose vertices sit at the pixel positions
  \<open>(\<plusminus>400, \<plusminus>300)\<close> and carry the texture coordinates \<open>(0,0)\<close>, \<open>(1,0)\<close>, \<open>(0,1)\<close>,
  \<open>(1,1)\<close>, in whatever pairing, has its corners at the normalized device coordinates
  \<open>(\<plusminus>1, \<plusminus>1)\<close>, the corners of the drawable, and its texture coordinates reach from 0
  to 1 on both axes.
\<close>

theorem quad_800x600_fills_drawable:
  assumes "set (map position q) = {(- 400, - 300), (400, - 300), (- 400, 300), (400, 300)}"
    and "set (map textureCoordinate q) = {(0, 0), (1, 0), (0, 1), (1, 1)}"
  shows "set (map (vertexNDC (800, 600)) q) = {(- 1, - 1), (1, - 1), (- 1, 1), (1, 1)}
    \<and> fst ` set (map textureCoordinate q) = {0, 1}
    \<and> snd ` set (map textureCoordinate q) = {0, 1}"
proof -
  have "set (map (vertexNDC (800, 600)) q)
          = viewportTransform (800, 600) ` set (map position q)"
    by (auto simp: vertexNDC_def)
  also have "\<dots> = {(- 1, - 1), (1, - 1), (- 1, 1), (1, 1)}"
    unfolding assms(1) by (simp add: viewportTransform_def)
  finally have ndc:
    "set (map (vertexNDC (800, 600)) q) = {(- 1, - 1), (1, - 1), (- 1, 1), (1, 1)}" .
  have tx: "fst ` set (map textureCoordinate q) = {0, 1}"
    unfolding assms(2) by auto
  have ty: "snd ` set (map textureCoordinate q) = {0, 1}"
    unfolding assms(2) by auto
  from ndc tx ty show ?thesis by simp
qed

theorem quad_800x600_fills_drawable_witness:
  "set (map (vertexNDC (800, 600))
     [\<lparr>position = (- 400, - 300), textureCoordinate = (0, 0)\<rparr>,
      \<lparr>position = (400, - 300), textureCoordinate = (1, 0)\<rparr>,
      \<lparr>position = (- 400, 300), textureCoordinate = (0, 1)\<rparr>,
      \<lparr>position = (400, 300), textureCoordinate = (1, 1)\<rparr>])
     = {(- 1, - 1), (1, - 1), (- 1, 1), (1, 1)}"
  using quad_800x600_fills_drawable [of
     "[\<lparr>position = (- 400, - 300), textureCoordinate = (0, 0)\<rparr>,
       \<lparr>position = (400, - 300), textureCoordinate = (1, 0)\<rparr>,
       \<lparr>position = (- 400, 300), textureCoordinate = (0, 1)\<rparr>,
       \<lparr>position = (400, 300), textureCoordinate = (1, 1)\<rparr>]"]
  by simp

text \<open>
  C4, as stated, fails. The quad of the 800 by 600 viewport has its corners at
  \<open>(\<plusminus>400, \<plusminus>300)\<close>; left at these pixel positions while the viewport becomes
  400 by 300, its corners map to \<open>(\<plusminus>2, \<plusminus>2)\<close>, not to \<open>(\<plusminus>1, \<plusminus>1)\<close>.
\<close>

theorem unchanged_quad_after_resize_counterexample:
  "quadCorners (800, 600) = [(- 400, - 300), (400, - 300), (- 400, 300), (400, 300)]
   \<and> map (viewportTransform (400, 300)) (quadCorners (800, 600))
       = [(- 2, - 2), (2, - 2), (- 2, 2), (2, 2)]
   \<and> map (viewportTransform (400, 300)) (quadCorners (800, 600))
       \<noteq> [(- 1, - 1), (1, - 1), (- 1, 1), (1, 1)]"
  by (simp add: quadCorners_def viewportTransform_def)

text \<open>
  C4, amended. When the viewport is resized to 400 by 300 and the quad's corners are
  computed again from the current viewport, they are \<open>(\<plusminus>200, \<plusminus>150)\<close> and map to
  the normalized device coordinates \<open>(\<plusminus>1, \<plusminus>1)\<close> again.
\<close>

theorem recomputed_quad_after_resize:
  "quadCorners (400, 300) = [(- 200, - 150), (200, - 150), (- 200, 150), (200, 150)]
   \<and> map (viewportTransform (400, 300)) (quadCorners (400, 300))
       = [(- 1, - 1), (1, - 1), (- 1, 1), (1, 1)]"
  by (simp add: quadCorners_def viewportTransform_def)

end
